theory Spec2Isabelle
  imports Complex_Main "HOL-Library.Log_Nat"
begin

section \<open>DatasetMaker.py: sound-signature classification of frequency-response curves\<close>

text \<open>
  The script reads, for every CSV file of the input directory, a frequency column and a
  sound-pressure-level column, subtracts the mean level, averages the normalised levels
  over seven fixed frequency bands, combines the bands into three regions and picks one
  of four labels; it then saves a plot and a copy of the file under the label's folder.

  Numbers: the script computes on numpy float64 arrays. The pipeline is embedded twice.
  The first embedding idealises float64 as \<^typ>\<open>real\<close>: its equations are those of exact
  arithmetic. The second one, whose names end in \<open>64\<close>, rounds the result of every
  arithmetic operation to the nearest double, as the script does; it is used where the
  rounding decides. NaN and infinities are outside both. Python's \<open>None\<close> is
  \<^term>\<open>None\<close> of \<^typ>\<open>real option\<close>.
\<close>

subsection \<open>Configuration constants (lines 14--34)\<close>

datatype label = Neutral | Bright | V_shape | Warm

fun label_name :: "label \<Rightarrow> string" where
  "label_name Neutral = ''Neutral''"
| "label_name Bright = ''Bright''"
| "label_name V_shape = ''V-shape''"
| "label_name Warm = ''Warm''"

definition classes :: "string list" where
  "classes = [''Neutral'', ''Bright'', ''V-shape'', ''Warm'']"

definition output_img_dir :: string where
  "output_img_dir = ''dataset5/images''"

definition output_csv_dir :: string where
  "output_csv_dir = ''dataset5/csvs''"

datatype band = sub_bass | mid_bass | low_mids | mids | upper_mids | presence | brilliance

text \<open>The dictionary \<open>bands\<close>: every key has its pair \<open>(low, high)\<close>.\<close>

fun bands :: "band \<Rightarrow> real \<times> real" where
  "bands sub_bass = (20, 60)"
| "bands mid_bass = (60, 250)"
| "bands low_mids = (250, 500)"
| "bands mids = (500, 2000)"
| "bands upper_mids = (2000, 4000)"
| "bands presence = (4000, 6000)"
| "bands brilliance = (6000, 12000)"

definition threshold :: real where
  "threshold = 3"

subsection \<open>Numpy helpers\<close>

text \<open>
  \<open>np.mean\<close> of a one-dimensional array: the sum over the number of elements. On an
  empty array numpy warns and returns NaN without raising; here the quotient by zero is
  \<open>0\<close>. The script only uses that value to shift an empty array, so it is never seen.
\<close>

definition np_mean :: "real list \<Rightarrow> real" where
  "np_mean xs = sum_list xs / real (length xs)"

text \<open>\<open>np.any(mask)\<close>.\<close>

definition np_any :: "bool list \<Rightarrow> bool" where
  "np_any msk = list_ex (\<lambda>b. b) msk"

text \<open>
  Boolean-mask indexing \<open>xs[mask]\<close>: the elements of \<open>xs\<close> at the positions where the
  mask holds. The two columns of a data frame have the same number of rows, so the mask
  and the array have the same length in the script.
\<close>

definition masked :: "'a list \<Rightarrow> bool list \<Rightarrow> 'a list" where
  "masked xs msk = map fst (filter snd (zip xs msk))"

subsection \<open>Normalisation (line 48)\<close>

definition spl_norm :: "real list \<Rightarrow> real list" where
  "spl_norm spl = map (\<lambda>x. x - np_mean spl) spl"

subsection \<open>Band means (lines 50--57)\<close>

definition band_mask :: "real list \<Rightarrow> real \<times> real \<Rightarrow> bool list" where
  "band_mask freqs lh = (case lh of (low, high) \<Rightarrow> map (\<lambda>f. f \<ge> low \<and> f < high) freqs)"

definition band_mean :: "real list \<Rightarrow> real list \<Rightarrow> real \<times> real \<Rightarrow> real option" where
  "band_mean freqs normed lh =
     (let msk = band_mask freqs lh
      in if np_any msk then Some (np_mean (masked normed msk)) else None)"

text \<open>The dictionary \<open>band_means\<close> after the loop over \<open>bands.items()\<close>.\<close>

definition band_means :: "real list \<Rightarrow> real list \<Rightarrow> band \<Rightarrow> real option" where
  "band_means freqs normed b = band_mean freqs normed (bands b)"

subsection \<open>Region averages (lines 59--76)\<close>

definition bass_avg :: "(band \<Rightarrow> real option) \<Rightarrow> real option" where
  "bass_avg bm =
     (if bm sub_bass \<noteq> None \<and> bm mid_bass \<noteq> None
      then Some ((the (bm sub_bass) + the (bm mid_bass)) / 2)
      else if bm sub_bass \<noteq> None then bm sub_bass else bm mid_bass)"

definition mid_avg :: "(band \<Rightarrow> real option) \<Rightarrow> real option" where
  "mid_avg bm =
     (let mid_values = [bm low_mids, bm mids, bm upper_mids];
          mid_values = map the (filter (\<lambda>m. m \<noteq> None) mid_values)
      in if mid_values \<noteq> [] then Some (np_mean mid_values) else None)"

definition treble_avg :: "(band \<Rightarrow> real option) \<Rightarrow> real option" where
  "treble_avg bm =
     (if bm presence \<noteq> None \<and> bm brilliance \<noteq> None
      then Some ((the (bm presence) + the (bm brilliance)) / 2)
      else if bm presence \<noteq> None then bm presence else bm brilliance)"

subsection \<open>Classification (lines 78--92)\<close>

text \<open>
  The threshold is the module constant \<^const>\<open>threshold\<close>; the rule is written over any
  threshold \<open>t\<close> and the script's label is the rule at that constant.
\<close>

text \<open>The guard of line 80: the decision table is entered only under it.\<close>

definition regions_defined :: "real option \<Rightarrow> real option \<Rightarrow> real option \<Rightarrow> bool" where
  "regions_defined bass mid treble = (bass \<noteq> None \<and> mid \<noteq> None \<and> treble \<noteq> None)"

definition label_at :: "real \<Rightarrow> real option \<Rightarrow> real option \<Rightarrow> real option \<Rightarrow> label" where
  "label_at t bass mid treble =
     (if regions_defined bass mid treble then
        (let bass_diff = the bass - the mid;
             treble_diff = the treble - the mid
         in if bass_diff \<ge> t \<and> treble_diff \<ge> t then V_shape
            else if treble_diff \<ge> t \<and> bass_diff < t then Bright
            else if bass_diff \<ge> t \<and> treble_diff < t then Warm
            else Neutral)
      else Neutral)"

definition label_of :: "real option \<Rightarrow> real option \<Rightarrow> real option \<Rightarrow> label" where
  "label_of bass mid treble = label_at threshold bass mid treble"

text \<open>The label the script gives to a curve, from its two columns.\<close>

definition classify :: "real list \<Rightarrow> real list \<Rightarrow> label" where
  "classify freqs spl =
     (let bm = band_means freqs (spl_norm spl)
      in label_of (bass_avg bm) (mid_avg bm) (treble_avg bm))"

subsection \<open>String and path helpers\<close>

text \<open>
  \<open>str.lower()\<close> on the characters of a file name. Only the letters \<open>A\<close> to \<open>Z\<close> change;
  Python also lowers letters beyond ASCII, none of which becomes one of the four
  characters of \<open>.csv\<close>, the only text the lowered name is compared with.
\<close>

definition lower_char :: "char \<Rightarrow> char" where
  "lower_char c =
     (let n = (of_char c :: nat) in if 65 \<le> n \<and> n \<le> 90 then char_of (n + 32) else c)"

definition lower :: "string \<Rightarrow> string" where
  "lower s = map lower_char s"

definition endswith :: "string \<Rightarrow> string \<Rightarrow> bool" where
  "endswith s suf = (length suf \<le> length s \<and> drop (length s - length suf) s = suf)"

text \<open>\<open>str.rfind\<close> of one character: the last index holding it, or \<open>-1\<close>.\<close>

definition rfind :: "string \<Rightarrow> char \<Rightarrow> int" where
  "rfind p c =
     (case filter (\<lambda>i. p ! i = c) (rev [0..<length p]) of
        [] \<Rightarrow> - 1
      | i # _ \<Rightarrow> int i)"

text \<open>
  \<open>os.path.splitext\<close> (POSIX): the extension starts at the last dot after the last
  separator, unless only dots stand between the separator and that dot.
\<close>

definition splitext :: "string \<Rightarrow> string \<times> string" where
  "splitext p =
     (let sepIndex = rfind p (CHR ''/'');
          dotIndex = rfind p (CHR ''.'')
      in if dotIndex > sepIndex
            \<and> list_ex (\<lambda>i. p ! nat i \<noteq> CHR ''.'') [sepIndex + 1..dotIndex - 1]
         then (take (nat dotIndex) p, drop (nat dotIndex) p)
         else (p, []))"

text \<open>\<open>os.path.join\<close> (POSIX) of two and of three components.\<close>

definition path_join :: "string \<Rightarrow> string \<Rightarrow> string" where
  "path_join a b =
     (if b \<noteq> [] \<and> hd b = CHR ''/'' then b
      else if a = [] \<or> last a = CHR ''/'' then a @ b
      else a @ ''/'' @ b)"

definition path_join3 :: "string \<Rightarrow> string \<Rightarrow> string \<Rightarrow> string" where
  "path_join3 a b c = path_join (path_join a b) c"

subsection \<open>One file, and the loop over the directory (lines 37--118)\<close>

definition input_dir :: string where
  "input_dir = ''SuperInEar''"

text \<open>
  A column of a data frame as \<open>to_numpy()\<close> returns it: an array of numbers (dtype float64
  or int64), or an array of dtype object, which \<open>pd.read_csv\<close> gives to a column holding
  text and to the columns of a file without rows.
\<close>

datatype ndarray = Floats "real list" | Objects "string list"

text \<open>
  A data frame: the list of its columns, all of the same length. \<open>df.shape[1]\<close> is the
  number of columns.
\<close>

type_synonym dataframe = "ndarray list"

text \<open>
  The exceptions of an iteration. The script has no \<open>try\<close>: an exception raised in an
  iteration ends the loop and the script. \<open>EmptyDataError\<close> (a file without any column)
  and \<open>ParserError\<close> come from \<open>pd.read_csv\<close> at line 42, \<open>TypeError\<close> from the
  arithmetic on a column of text.
\<close>

datatype error = EmptyDataError | ParserError | TypeError

text \<open>
  A column as an operand of numpy arithmetic and of a comparison with a number
  (\<open>np.mean(spl)\<close> at line 48, \<open>freqs >= low\<close> at line 53): on text cells both raise
  \<open>TypeError\<close>; on an array without elements there is no cell to raise on.
\<close>

fun as_numbers :: "ndarray \<Rightarrow> error + real list" where
  "as_numbers (Floats xs) = Inr xs"
| "as_numbers (Objects []) = Inr []"
| "as_numbers (Objects (s # ss)) = Inl TypeError"

text \<open>
  What one iteration writes: the plot of \<open>freqs\<close> against \<open>spl_norm\<close> saved at
  \<open>img_path\<close>, and the copy of \<open>filepath\<close> at \<open>csv_dest\<close>.
\<close>

record artifacts =
  art_label :: label
  plot_x :: "real list"
  plot_y :: "real list"
  img_path :: string
  csv_src :: string
  csv_dest :: string

text \<open>
  One iteration of the loop. \<open>read_csv\<close> stands for the files' contents: what
  \<open>pd.read_csv\<close> does on a path, a frame or an exception. The result \<open>Inl e\<close> is the
  exception \<open>e\<close> leaving the iteration, \<open>Inr None\<close> is \<open>continue\<close> (nothing is written),
  \<open>Inr (Some a)\<close> is the end of the iteration with the artifacts \<open>a\<close> written.
\<close>

definition process_file ::
  "(string \<Rightarrow> error + dataframe) \<Rightarrow> string \<Rightarrow> error + artifacts option" where
  "process_file read_csv filename =
     (if \<not> endswith (lower filename) ''.csv'' then Inr None
      else
        let filepath = path_join input_dir filename
        in case read_csv filepath of
             Inl e \<Rightarrow> Inl e
           | Inr df \<Rightarrow>
               if length df < 2 then Inr None
               else
                 (case as_numbers (df ! 1) of
                    Inl e \<Rightarrow> Inl e
                  | Inr spl \<Rightarrow>
                      (case as_numbers (df ! 0) of
                         Inl e \<Rightarrow> Inl e
                       | Inr freqs \<Rightarrow>
                           let label = classify freqs spl;
                               base_name = fst (splitext filename);
                               img = path_join3 output_img_dir (label_name label)
                                       (base_name @ ''.png'');
                               dest = path_join3 output_csv_dir (label_name label) filename
                           in Inr (Some \<lparr>art_label = label, plot_x = freqs,
                                           plot_y = spl_norm spl, img_path = img,
                                           csv_src = filepath, csv_dest = dest\<rparr>))))"

text \<open>
  The whole loop over \<open>os.listdir(input_dir)\<close>: the artifacts written, in order, and the
  exception that ended the loop, if one did.
\<close>

fun process_all ::
  "(string \<Rightarrow> error + dataframe) \<Rightarrow> string list \<Rightarrow> artifacts list \<times> error option" where
  "process_all read_csv [] = ([], None)"
| "process_all read_csv (filename # listing) =
     (case process_file read_csv filename of
        Inl e \<Rightarrow> ([], Some e)
      | Inr None \<Rightarrow> process_all read_csv listing
      | Inr (Some a) \<Rightarrow>
          (case process_all read_csv listing of (written, raised) \<Rightarrow> (a # written, raised)))"

text \<open>
  Examples of file contents. In \<open>header_only\<close> every file holds the header line of two
  columns and no row, so that \<open>pd.read_csv\<close> loads two empty columns; in \<open>text_cell\<close>
  every file has a numeric first column and a second column with a cell of text; in
  \<open>zero_byte\<close> every file is empty, on which \<open>pd.read_csv\<close> raises; in \<open>one_column\<close>
  every file has a single column.
\<close>

definition header_only :: "string \<Rightarrow> error + dataframe" where
  "header_only p = Inr [Objects [], Objects []]"

definition text_cell :: "string \<Rightarrow> error + dataframe" where
  "text_cell p = Inr [Floats [100, 1000], Objects [''80.5'', ''n/a'']]"

definition zero_byte :: "string \<Rightarrow> error + dataframe" where
  "zero_byte p = Inl EmptyDataError"

definition one_column :: "string \<Rightarrow> error + dataframe" where
  "one_column p = Inr [Floats [1, 2]]"

definition bright_curve :: "string \<Rightarrow> error + dataframe" where
  "bright_curve p = Inr [Floats [100, 1000, 5000], Floats [0, 0, 9]]"

section \<open>The pipeline in float64 (lines 48--92)\<close>

text \<open>
  The exponent of a non-zero real: the \<open>e\<close> with \<open>2 ^ e \<le> \<bar>x\<bar> < 2 ^ (e + 1)\<close>
  (lemma \<open>expo_bounds\<close> below), from the number of binary digits of the integer part of
  \<open>\<bar>x\<bar>\<close> or of its inverse.
\<close>

definition expo :: "real \<Rightarrow> int" where
  "expo x =
     (if \<bar>x\<bar> \<ge> 1 then int (floorlog 2 (nat \<lfloor>\<bar>x\<bar>\<rfloor>)) - 1
      else - int (floorlog 2 (nat (\<lceil>1 / \<bar>x\<bar>\<rceil> - 1))))"

text \<open>Rounding to the nearest integer, a tie to the even one.\<close>

definition round_half_even :: "real \<Rightarrow> int" where
  "round_half_even y =
     (let n = \<lfloor>y\<rfloor>; r = y - of_int n
      in if r < 1 / 2 then n else if r > 1 / 2 then n + 1 else if even n then n else n + 1)"

text \<open>
  The double nearest to a real (IEEE 754 binary64, round to nearest, ties to even): 53
  significant bits, so the spacing at exponent \<open>e\<close> is \<open>2 ^ (e - 52)\<close>, and the spacing
  of the subnormal numbers below \<open>2 ^ (- 1022)\<close>. Overflow to infinity is not modelled:
  the definition is that of float64 for \<open>\<bar>x\<bar> < 2 ^ 1024\<close>.
\<close>

definition float64 :: "real \<Rightarrow> real" where
  "float64 x =
     (if x = 0 then 0
      else let e = max (expo x) (- 1022); u = 2 powi (e - 52)
           in of_int (round_half_even (x / u)) * u)"

text \<open>
  \<open>np.sum\<close> of a float64 array: numpy adds an array of fewer than 8 elements in index
  order, rounding every sum. It adds a longer array in blocks, in another order of
  association, which this definition does not follow.
\<close>

definition sum64 :: "real list \<Rightarrow> real" where
  "sum64 xs = foldl (\<lambda>s x. float64 (s + x)) 0 xs"

definition np_mean64 :: "real list \<Rightarrow> real" where
  "np_mean64 xs = float64 (sum64 xs / real (length xs))"

definition spl_norm64 :: "real list \<Rightarrow> real list" where
  "spl_norm64 spl = map (\<lambda>x. float64 (x - np_mean64 spl)) spl"

definition band_mean64 :: "real list \<Rightarrow> real list \<Rightarrow> real \<times> real \<Rightarrow> real option" where
  "band_mean64 freqs normed lh =
     (let msk = band_mask freqs lh
      in if np_any msk then Some (np_mean64 (masked normed msk)) else None)"

definition band_means64 :: "real list \<Rightarrow> real list \<Rightarrow> band \<Rightarrow> real option" where
  "band_means64 freqs normed b = band_mean64 freqs normed (bands b)"

definition bass_avg64 :: "(band \<Rightarrow> real option) \<Rightarrow> real option" where
  "bass_avg64 bm =
     (if bm sub_bass \<noteq> None \<and> bm mid_bass \<noteq> None
      then Some (float64 (float64 (the (bm sub_bass) + the (bm mid_bass)) / 2))
      else if bm sub_bass \<noteq> None then bm sub_bass else bm mid_bass)"

definition mid_avg64 :: "(band \<Rightarrow> real option) \<Rightarrow> real option" where
  "mid_avg64 bm =
     (let mid_values = [bm low_mids, bm mids, bm upper_mids];
          mid_values = map the (filter (\<lambda>m. m \<noteq> None) mid_values)
      in if mid_values \<noteq> [] then Some (np_mean64 mid_values) else None)"

definition treble_avg64 :: "(band \<Rightarrow> real option) \<Rightarrow> real option" where
  "treble_avg64 bm =
     (if bm presence \<noteq> None \<and> bm brilliance \<noteq> None
      then Some (float64 (float64 (the (bm presence) + the (bm brilliance)) / 2))
      else if bm presence \<noteq> None then bm presence else bm brilliance)"

definition label_at64 :: "real \<Rightarrow> real option \<Rightarrow> real option \<Rightarrow> real option \<Rightarrow> label" where
  "label_at64 t bass mid treble =
     (if regions_defined bass mid treble then
        (let bass_diff = float64 (the bass - the mid);
             treble_diff = float64 (the treble - the mid)
         in if bass_diff \<ge> t \<and> treble_diff \<ge> t then V_shape
            else if treble_diff \<ge> t \<and> bass_diff < t then Bright
            else if bass_diff \<ge> t \<and> treble_diff < t then Warm
            else Neutral)
      else Neutral)"

definition classify64 :: "real list \<Rightarrow> real list \<Rightarrow> label" where
  "classify64 freqs spl =
     (let bm = band_means64 freqs (spl_norm64 spl)
      in label_at64 threshold (bass_avg64 bm) (mid_avg64 bm) (treble_avg64 bm))"

section \<open>Reference definitions, in the words of the specification\<close>

text \<open>The indices of the samples of a band: \<open>low \<le> f < high\<close>.\<close>

definition band_indices :: "real list \<Rightarrow> real \<times> real \<Rightarrow> nat set" where
  "band_indices freqs lh = {i. i < length freqs \<and> fst lh \<le> freqs ! i \<and> freqs ! i < snd lh}"

text \<open>The arithmetic mean of the levels at those indices, absent when there are none.\<close>

definition spec_band_mean :: "real list \<Rightarrow> real list \<Rightarrow> real \<times> real \<Rightarrow> real option" where
  "spec_band_mean freqs levels lh =
     (if band_indices freqs lh = {} then None
      else Some ((\<Sum>i\<in>band_indices freqs lh. levels ! i) / real (card (band_indices freqs lh))))"

text \<open>Defined-aware averaging: the mean of the defined operands, absent when none is.\<close>

definition defined_mean :: "real option list \<Rightarrow> real option" where
  "defined_mean ops =
     (case List.map_filter (\<lambda>x. x) ops of
        [] \<Rightarrow> None
      | v # vs \<Rightarrow> Some (sum_list (v # vs) / real (length (v # vs))))"

text \<open>The decision table over the two differences.\<close>

definition table_label :: "real \<Rightarrow> real \<Rightarrow> real \<Rightarrow> label" where
  "table_label t bassDiff trebleDiff =
     (if bassDiff \<ge> t \<and> trebleDiff \<ge> t then V_shape
      else if trebleDiff \<ge> t \<and> bassDiff < t then Bright
      else if bassDiff \<ge> t \<and> trebleDiff < t then Warm
      else Neutral)"

section \<open>Auxiliary facts about the numpy helpers\<close>

lemma np_mean_shift: "xs \<noteq> [] \<Longrightarrow> np_mean (map (\<lambda>x. x + c) xs) = np_mean xs + c"
  by (simp add: np_mean_def sum_list_addf sum_list_triv add_divide_distrib)

lemma np_mean_minus: "xs \<noteq> [] \<Longrightarrow> np_mean (map (\<lambda>x. x - c) xs) = np_mean xs - c"
  by (simp add: np_mean_def sum_list_subtractf sum_list_triv diff_divide_distrib)

lemma spl_norm_shift: "spl_norm (map (\<lambda>x. x + c) spl) = spl_norm spl"
proof (cases "spl = []")
  case True
  then show ?thesis by (simp add: spl_norm_def)
next
  case False
  then show ?thesis by (simp add: spl_norm_def np_mean_shift comp_def)
qed

lemma length_spl_norm: "length (spl_norm spl) = length spl"
  by (simp add: spl_norm_def)

lemma np_mean_spl_norm: "spl \<noteq> [] \<Longrightarrow> np_mean (spl_norm spl) = 0"
  by (simp add: spl_norm_def np_mean_minus)

lemma masked_map: "masked (map g xs) msk = map g (masked xs msk)"
  by (induction xs arbitrary: msk) (auto simp: masked_def split: list.splits simp: zip_Cons1)

lemma masked_conv_filter:
  "length xs = length fs \<Longrightarrow> masked xs (map P fs) = map snd (filter (P \<circ> fst) (zip fs xs))"
  by (induction xs fs rule: list_induct2) (auto simp: masked_def)

lemma zip_conv_nth: "length xs = length fs \<Longrightarrow> zip fs xs = map (\<lambda>i. (fs ! i, xs ! i)) [0..<length fs]"
  by (rule nth_equalityI) auto

lemma masked_conv_nth:
  assumes "length xs = length fs"
  shows "masked xs (map P fs) = map ((!) xs) (filter (\<lambda>i. P (fs ! i)) [0..<length fs])"
proof -
  have "masked xs (map P fs) = map snd (filter (P \<circ> fst) (map (\<lambda>i. (fs ! i, xs ! i)) [0..<length fs]))"
    using assms by (simp add: masked_conv_filter zip_conv_nth)
  also have "\<dots> = map ((!) xs) (filter (\<lambda>i. P (fs ! i)) [0..<length fs])"
    by (simp add: filter_map comp_def)
  finally show ?thesis .
qed

lemma np_any_map: "np_any (map P fs) = (\<exists>i < length fs. P (fs ! i))"
  unfolding np_any_def list_ex_iff by (simp add: Bex_def in_set_conv_nth) blast

lemma band_mean_eq_spec:
  assumes "length levels = length freqs"
  shows "band_mean freqs levels lh = spec_band_mean freqs levels lh"
proof -
  obtain low high where lh: "lh = (low, high)" by (cases lh)
  let ?P = "\<lambda>f. f \<ge> low \<and> f < high"
  let ?is = "filter (\<lambda>i. ?P (freqs ! i)) [0..<length freqs]"
  have set_is: "set ?is = band_indices freqs lh"
    by (auto simp: band_indices_def lh)
  have dist: "distinct ?is" by simp
  have m: "masked levels (band_mask freqs lh) = map ((!) levels) ?is"
    using assms by (simp add: band_mask_def lh masked_conv_nth)
  have s: "sum_list (map ((!) levels) ?is) = (\<Sum>i\<in>band_indices freqs lh. levels ! i)"
    using dist set_is by (simp add: sum_list_distinct_conv_sum_set)
  have l: "length ?is = card (band_indices freqs lh)"
    using dist set_is distinct_card by metis
  have a: "np_any (band_mask freqs lh) = (band_indices freqs lh \<noteq> {})"
    by (auto simp: band_mask_def lh np_any_map band_indices_def)
  show ?thesis
    unfolding band_mean_def spec_band_mean_def Let_def a m np_mean_def
    using s l by simp
qed

lemma band_lower: "20 \<le> fst (bands b)"
  by (cases b) simp_all

lemma band_upper: "snd (bands b) \<le> 12000"
  by (cases b) simp_all

lemma masked_restrict:
  assumes "length xs = length fs" and "\<And>f. P f \<Longrightarrow> K f"
  shows "masked (masked xs (map K fs)) (map P (masked fs (map K fs))) = masked xs (map P fs)"
  using assms by (induction xs fs rule: list_induct2) (auto simp: masked_def)

lemma np_any_restrict:
  assumes "\<And>f. P f \<Longrightarrow> K f"
  shows "np_any (map P (masked fs (map K fs))) = np_any (map P fs)"
  using assms by (induction fs) (auto simp: masked_def np_any_def)

lemma band_mean_restrict:
  assumes "length xs = length fs" and "20 \<le> fst lh" and "snd lh \<le> 12000"
  shows "band_mean (masked fs (map (\<lambda>f. 20 \<le> f \<and> f < 12000) fs))
           (masked xs (map (\<lambda>f. 20 \<le> f \<and> f < 12000) fs)) lh = band_mean fs xs lh"
proof -
  obtain low high where lh: "lh = (low, high)" by (cases lh)
  have imp: "\<And>f. low \<le> f \<and> f < high \<Longrightarrow> 20 \<le> f \<and> f < 12000"
    using assms(2,3) by (auto simp: lh)
  show ?thesis
    unfolding band_mean_def band_mask_def lh Let_def prod.case
    using masked_restrict[OF assms(1) imp] np_any_restrict[of "\<lambda>f. low \<le> f \<and> f < high" "\<lambda>f. 20 \<le> f \<and> f < 12000" fs, OF imp]
    by simp
qed
text \<open>The folder of every label is one of those created at lines 18--20.\<close>

lemma label_name_in_classes: "label_name l \<in> set classes"
  by (cases l) (simp_all add: classes_def)

lemma band_mean_empty: "band_mean [] xs lh = None"
  by (cases lh) (simp add: band_mean_def band_mask_def np_any_def)

text \<open>The exponent brackets its argument between two powers of two.\<close>

lemma expo_bounds_ge1:
  assumes "\<bar>x\<bar> \<ge> 1"
  shows "2 powi (expo x) \<le> \<bar>x\<bar> \<and> \<bar>x\<bar> < 2 powi (expo x + 1)"
proof -
  define n where "n = nat \<lfloor>\<bar>x\<bar>\<rfloor>"
  define k where "k = floorlog 2 n"
  have n1: "n \<ge> 1" using assms by (simp add: n_def le_nat_iff)
  then have npos: "n > 0" by simp
  have b: "2 ^ (k - 1) \<le> n \<and> n < 2 ^ k"
    unfolding k_def using floorlog_bounds [OF npos, of 2] by simp
  have k1: "k \<ge> 1"
    using npos by (simp add: k_def floorlog_def)
  have e: "expo x = int k - 1" using assms by (simp add: expo_def k_def n_def)
  have nle: "real n \<le> \<bar>x\<bar>" using assms by (simp add: n_def)
  have xlt: "\<bar>x\<bar> < real n + 1" unfolding n_def by linarith
  have p1: "(2::real) powi (int k - 1) = 2 ^ (k - 1)"
    using k1 by (simp add: power_int_def nat_diff_distrib')
  have p2: "(2::real) powi (int k - 1 + 1) = 2 ^ k"
    by (simp add: power_int_def)
  have "real (2 ^ (k - 1)) \<le> real n"
    using b by (intro of_nat_mono) simp
  then have "(2::real) ^ (k - 1) \<le> real n" by simp
  then have l: "(2::real) ^ (k - 1) \<le> \<bar>x\<bar>" using nle by linarith
  have "n + 1 \<le> 2 ^ k" using b by simp
  then have "real (n + 1) \<le> real (2 ^ k)" by (intro of_nat_mono)
  then have "real n + 1 \<le> 2 ^ k" by simp
  then have u: "\<bar>x\<bar> < 2 ^ k" using xlt by linarith
  show ?thesis unfolding e p1 p2 using l u by simp
qed

lemma expo_bounds_lt1:
  assumes "x \<noteq> 0" and "\<bar>x\<bar> < 1"
  shows "2 powi (expo x) \<le> \<bar>x\<bar> \<and> \<bar>x\<bar> < 2 powi (expo x + 1)"
proof -
  define y where "y = 1 / \<bar>x\<bar>"
  define n where "n = nat (\<lceil>y\<rceil> - 1)"
  define k where "k = floorlog 2 n"
  have xpos: "\<bar>x\<bar> > 0" using assms by simp
  have y1: "y > 1" using assms xpos by (simp add: y_def)
  then have c2: "\<lceil>y\<rceil> \<ge> 2" by linarith
  then have npos: "n > 0" by (simp add: n_def)
  have nr: "real n = of_int \<lceil>y\<rceil> - 1" using c2 by (simp add: n_def)
  have b: "2 ^ (k - 1) \<le> n \<and> n < 2 ^ k"
    unfolding k_def using floorlog_bounds [OF npos, of 2] by simp
  have k1: "k \<ge> 1"
    using npos by (simp add: k_def floorlog_def)
  have e: "expo x = - int k" using assms by (simp add: expo_def k_def n_def y_def)
  have "real (2 ^ (k - 1)) \<le> real n"
    using b by (intro of_nat_mono) simp
  then have lo: "(2::real) ^ (k - 1) \<le> real n" by simp
  have "n + 1 \<le> 2 ^ k" using b by simp
  then have "real (n + 1) \<le> real (2 ^ k)" by (intro of_nat_mono)
  then have hi: "real n + 1 \<le> 2 ^ k" by simp
  have yle: "y \<le> 2 ^ k" using hi nr by linarith
  have ygt: "y > 2 ^ (k - 1)" using lo nr by linarith
  have p1: "(2::real) powi (- int k) = 1 / 2 ^ k"
    by (simp add: power_int_def inverse_eq_divide power_one_over)
  have p2: "(2::real) powi (- int k + 1) = 1 / 2 ^ (k - 1)"
    using k1 by (cases k) (simp_all add: power_int_def inverse_eq_divide power_one_over)
  have xy: "\<bar>x\<bar> = 1 / y" using xpos by (simp add: y_def)
  have l: "1 / 2 ^ k \<le> \<bar>x\<bar>"
    unfolding xy using yle y1 by (simp add: frac_le)
  have u: "\<bar>x\<bar> < 1 / 2 ^ (k - 1)"
    unfolding xy using ygt by (simp add: frac_less2)
  show ?thesis unfolding e p1 p2 using l u by simp
qed

lemma expo_bounds: "x \<noteq> 0 \<Longrightarrow> 2 powi (expo x) \<le> \<bar>x\<bar> \<and> \<bar>x\<bar> < 2 powi (expo x + 1)"
  using expo_bounds_ge1 [of x] expo_bounds_lt1 [of x] by (cases "\<bar>x\<bar> \<ge> 1") auto

text \<open>Arithmetic on a column raises nothing but \<open>TypeError\<close>.\<close>

lemma as_numbers_error: "as_numbers col = Inl e \<Longrightarrow> e = TypeError"
  by (cases col rule: as_numbers.cases) simp_all

section \<open>The decision table\<close>

text \<open>
  C1. For every defined triple (Bass, Mid, Treble) and every threshold, with
  bassDiff = Bass - Mid and trebleDiff = Treble - Mid, the classifier returns the label of
  the table: V-shape when both differences reach the threshold, Bright when only
  trebleDiff does, Warm when only bassDiff does, Neutral otherwise. The four regions of the
  (bassDiff, trebleDiff) plane cover it and are pairwise disjoint: each label is returned
  on exactly its region, threshold lines included, and every point of the plane lies in
  exactly one of the four regions.
\<close>

theorem label_at_table:
  "(label_at t (Some b) (Some m) (Some tr) = V_shape) = (b - m \<ge> t \<and> tr - m \<ge> t)
   \<and> (label_at t (Some b) (Some m) (Some tr) = Bright) = (tr - m \<ge> t \<and> b - m < t)
   \<and> (label_at t (Some b) (Some m) (Some tr) = Warm) = (b - m \<ge> t \<and> tr - m < t)
   \<and> (label_at t (Some b) (Some m) (Some tr) = Neutral) = (b - m < t \<and> tr - m < t)
   \<and> label_at t (Some b) (Some m) (Some tr) = table_label t (b - m) (tr - m)
   \<and> (if b - m \<ge> t \<and> tr - m \<ge> t then 1 else 0 :: nat)
       + (if tr - m \<ge> t \<and> b - m < t then 1 else 0)
       + (if b - m \<ge> t \<and> tr - m < t then 1 else 0)
       + (if b - m < t \<and> tr - m < t then 1 else 0) = 1"
  by (simp add: label_at_def regions_defined_def table_label_def Let_def not_le)

text \<open>The four scenarios of the decision table at threshold 3, and the corner of the lines.\<close>

theorem label_at_table_witness:
  "label_at 3 (Some 5) (Some 0) (Some 5) = V_shape
   \<and> label_at 3 (Some 0) (Some 0) (Some 6) = Bright
   \<and> label_at 3 (Some 4) (Some 0) (Some 1) = Warm
   \<and> label_at 3 (Some 1) (Some 0) (Some 1) = Neutral
   \<and> label_at 3 (Some 3) (Some 0) (Some 3) = V_shape"
  using label_at_table [of 3 5 0 5] label_at_table [of 3 0 0 6] label_at_table [of 3 4 0 1]
    label_at_table [of 3 1 0 1] label_at_table [of 3 3 0 3]
  by simp

section \<open>The fallback to Neutral\<close>

text \<open>
  C2. If any one of the three region means Bass, Mid, Treble is undefined, the
  classifier assigns Neutral: the guard of line 80 fails, the decision table is not
  entered and no difference is computed. This holds for the rule at any threshold and
  for the label of every curve.
\<close>

theorem undefined_region_gives_Neutral:
  "(bass = None \<or> mid = None \<or> treble = None \<longrightarrow> label_at t bass mid treble = Neutral)
   \<and> (bass_avg (band_means freqs (spl_norm spl)) = None
        \<or> mid_avg (band_means freqs (spl_norm spl)) = None
        \<or> treble_avg (band_means freqs (spl_norm spl)) = None
      \<longrightarrow> classify freqs spl = Neutral)"
  by (auto simp: label_at_def label_of_def classify_def regions_defined_def Let_def)

theorem undefined_region_gives_Neutral_witness:
  "mid_avg (band_means [100, 5000] (spl_norm [20, 0])) = None
   \<and> label_at 3 (Some 10) None (Some (- 10)) = Neutral
   \<and> classify [100, 5000] [20, 0] = Neutral"
proof -
  have h: "mid_avg (band_means [100, 5000] (spl_norm [20, 0])) = None"
    by code_simp
  show ?thesis
    using h undefined_region_gives_Neutral [of "Some 10" None "Some (- 10)" 3 "[100, 5000]" "[20, 0]"]
    by simp
qed

section \<open>Band means\<close>

text \<open>
  C3. For every curve and each of the seven bands, the band mean of the normalised curve
  is the arithmetic mean of the normalised levels of exactly the samples whose frequency
  \<open>f\<close> satisfies \<open>low \<le> f < high\<close>, and it is the marker \<^term>\<open>None\<close> (not a number)
  exactly when no sample falls in the interval. The interval is half-open: a sample at
  60 Hz is selected for mid_bass and not for sub_bass, one at 2000 Hz for upper_mids and
  not for mids.
\<close>

theorem band_means_spec:
  "length spl = length freqs \<Longrightarrow>
     band_means freqs (spl_norm spl) b = spec_band_mean freqs (spl_norm spl) (bands b)
     \<and> (band_means freqs (spl_norm spl) b = None) = (band_indices freqs (bands b) = {})
     \<and> (\<forall>i < length freqs. freqs ! i = 60 \<longrightarrow>
           band_mask freqs (bands mid_bass) ! i \<and> \<not> band_mask freqs (bands sub_bass) ! i)
     \<and> (\<forall>i < length freqs. freqs ! i = 2000 \<longrightarrow>
           band_mask freqs (bands upper_mids) ! i \<and> \<not> band_mask freqs (bands mids) ! i)"
proof -
  assume len: "length spl = length freqs"
  then have e: "band_means freqs (spl_norm spl) b = spec_band_mean freqs (spl_norm spl) (bands b)"
    by (simp add: band_means_def band_mean_eq_spec length_spl_norm)
  have n: "(band_means freqs (spl_norm spl) b = None) = (band_indices freqs (bands b) = {})"
    unfolding e by (simp add: spec_band_mean_def)
  have b1: "\<forall>i < length freqs. freqs ! i = 60 \<longrightarrow>
           band_mask freqs (bands mid_bass) ! i \<and> \<not> band_mask freqs (bands sub_bass) ! i"
    by (simp add: band_mask_def)
  have b2: "\<forall>i < length freqs. freqs ! i = 2000 \<longrightarrow>
           band_mask freqs (bands upper_mids) ! i \<and> \<not> band_mask freqs (bands mids) ! i"
    by (simp add: band_mask_def)
  from e n b1 b2 show ?thesis by blast
qed
theorem band_means_spec_witness:
  "length [4, 0 :: real] = length [60, 2000 :: real]
   \<and> spec_band_mean [60, 2000] (spl_norm [4, 0]) (bands mid_bass) = Some 2
   \<and> band_indices [60, 2000] (bands sub_bass) = {}
   \<and> band_mask [60, 2000] (bands mid_bass) ! 0
   \<and> \<not> band_mask [60, 2000] (bands sub_bass) ! 0
   \<and> band_mask [60, 2000] (bands upper_mids) ! 1
   \<and> \<not> band_mask [60, 2000] (bands mids) ! 1"
proof -
  have h: "length [4, 0 :: real] = length [60, 2000 :: real]" by simp
  have m: "band_means [60, 2000] (spl_norm [4, 0]) mid_bass = Some 2" by code_simp
  have s: "band_means [60, 2000] (spl_norm [4, 0]) sub_bass = None" by code_simp
  have i0: "(0::nat) < length [60, 2000 :: real] \<and> [60, 2000 :: real] ! 0 = 60" by simp
  have i1: "(1::nat) < length [60, 2000 :: real] \<and> [60, 2000 :: real] ! 1 = 2000" by simp
  note t1 = band_means_spec [OF h, of mid_bass]
  note t2 = band_means_spec [OF h, of sub_bass]
  from t1 m have a: "spec_band_mean [60, 2000] (spl_norm [4, 0]) (bands mid_bass) = Some 2"
    by simp
  from t2 s have b: "band_indices [60, 2000] (bands sub_bass) = {}"
    by simp
  from t1 i0 have c: "band_mask [60, 2000] (bands mid_bass) ! 0
      \<and> \<not> band_mask [60, 2000] (bands sub_bass) ! 0"
    by blast
  from t1 i1 have d: "band_mask [60, 2000] (bands upper_mids) ! 1
      \<and> \<not> band_mask [60, 2000] (bands mids) ! 1"
    by blast
  from h a b c d show ?thesis by blast
qed

section \<open>Region averages\<close>

text \<open>
  C4. The three region averages are defined-aware means: Bass over sub_bass and
  mid_bass, Mid over low_mids, mids and upper_mids, Treble over presence and brilliance,
  each the mean of the defined operands. With exactly one of a pair defined the region
  equals it, and a region is undefined exactly when all of its bands are.
\<close>

theorem region_combiner_defined_aware:
  "bass_avg bm = defined_mean [bm sub_bass, bm mid_bass]
   \<and> mid_avg bm = defined_mean [bm low_mids, bm mids, bm upper_mids]
   \<and> treble_avg bm = defined_mean [bm presence, bm brilliance]
   \<and> (bm sub_bass = Some x \<and> bm mid_bass = None \<longrightarrow> bass_avg bm = Some x)
   \<and> (bm sub_bass = None \<and> bm mid_bass = Some x \<longrightarrow> bass_avg bm = Some x)
   \<and> (bm presence = Some y \<and> bm brilliance = None \<longrightarrow> treble_avg bm = Some y)
   \<and> (bm presence = None \<and> bm brilliance = Some y \<longrightarrow> treble_avg bm = Some y)
   \<and> (bass_avg bm = None) = (bm sub_bass = None \<and> bm mid_bass = None)
   \<and> (mid_avg bm = None) = (bm low_mids = None \<and> bm mids = None \<and> bm upper_mids = None)
   \<and> (treble_avg bm = None) = (bm presence = None \<and> bm brilliance = None)"
proof -
  have b: "bass_avg bm = defined_mean [bm sub_bass, bm mid_bass]"
    by (cases "bm sub_bass"; cases "bm mid_bass")
       (simp_all add: bass_avg_def defined_mean_def List.map_filter_def)
  have m: "mid_avg bm = defined_mean [bm low_mids, bm mids, bm upper_mids]"
    by (cases "bm low_mids"; cases "bm mids"; cases "bm upper_mids")
       (simp_all add: mid_avg_def defined_mean_def List.map_filter_def np_mean_def)
  have t: "treble_avg bm = defined_mean [bm presence, bm brilliance]"
    by (cases "bm presence"; cases "bm brilliance")
       (simp_all add: treble_avg_def defined_mean_def List.map_filter_def)
  have b1: "(bass_avg bm = None) = (bm sub_bass = None \<and> bm mid_bass = None)"
    by (simp add: bass_avg_def)
  have m1: "(mid_avg bm = None) = (bm low_mids = None \<and> bm mids = None \<and> bm upper_mids = None)"
    by (simp add: mid_avg_def Let_def)
  have t1: "(treble_avg bm = None) = (bm presence = None \<and> bm brilliance = None)"
    by (simp add: treble_avg_def)
  have b2: "bm sub_bass = Some x \<and> bm mid_bass = None \<longrightarrow> bass_avg bm = Some x"
    by (simp add: bass_avg_def)
  have b3: "bm sub_bass = None \<and> bm mid_bass = Some x \<longrightarrow> bass_avg bm = Some x"
    by (simp add: bass_avg_def)
  have t2: "bm presence = Some y \<and> bm brilliance = None \<longrightarrow> treble_avg bm = Some y"
    by (simp add: treble_avg_def)
  have t3: "bm presence = None \<and> bm brilliance = Some y \<longrightarrow> treble_avg bm = Some y"
    by (simp add: treble_avg_def)
  from b m t b1 m1 t1 b2 b3 t2 t3 show ?thesis by blast
qed
theorem region_combiner_defined_aware_witness:
  "bass_avg (band_means [30, 5000] [4, 6]) = Some 4
   \<and> treble_avg (band_means [30, 5000] [4, 6]) = Some 6
   \<and> bass_avg (band_means [100, 7000] [4, 6]) = Some 4
   \<and> treble_avg (band_means [100, 7000] [4, 6]) = Some 6"
proof -
  have a: "band_means [30, 5000] [4, 6] sub_bass = Some 4 \<and> band_means [30, 5000] [4, 6] mid_bass = None"
    by code_simp
  have b: "band_means [30, 5000] [4, 6] presence = Some 6 \<and> band_means [30, 5000] [4, 6] brilliance = None"
    by code_simp
  have c: "band_means [100, 7000] [4, 6] sub_bass = None \<and> band_means [100, 7000] [4, 6] mid_bass = Some 4"
    by code_simp
  have d: "band_means [100, 7000] [4, 6] presence = None \<and> band_means [100, 7000] [4, 6] brilliance = Some 6"
    by code_simp
  from a b c d
    region_combiner_defined_aware [of "band_means [30, 5000] [4, 6]" 4 6]
    region_combiner_defined_aware [of "band_means [100, 7000] [4, 6]" 4 6]
  show ?thesis by blast
qed

section \<open>Normalisation\<close>

text \<open>
  C5. For every non-empty sequence of levels the normalised sequence has the same
  length, its i-th element is the i-th level minus the mean of the levels, and its mean
  is 0 (exactly, in real arithmetic). The normaliser is a function of its argument alone.
\<close>

theorem spl_norm_zero_mean:
  "spl \<noteq> [] \<Longrightarrow>
     length (spl_norm spl) = length spl
     \<and> (\<forall>i < length spl. spl_norm spl ! i = spl ! i - np_mean spl)
     \<and> np_mean (spl_norm spl) = 0"
  by (simp add: np_mean_spl_norm length_spl_norm) (simp add: spl_norm_def)

theorem spl_norm_zero_mean_witness:
  "[1, 2, 6 :: real] \<noteq> [] \<and> length (spl_norm [1, 2, 6]) = 3
   \<and> spl_norm [1, 2, 6] ! 2 = 6 - np_mean [1, 2, 6]
   \<and> np_mean (spl_norm [1, 2, 6]) = 0"
proof -
  have h: "[1, 2, 6 :: real] \<noteq> []" by simp
  have i: "(2::nat) < length [1, 2, 6 :: real]" by simp
  from spl_norm_zero_mean [OF h] i h show ?thesis by simp
qed

section \<open>Shift invariance\<close>

text \<open>
  C9, as stated: adding a constant to every level leaves the normalised curve, the band
  and region means, the two differences and the label unchanged. In the float64
  arithmetic of the script this fails. The curve with the levels -7, 0, 3 at 100, 1000 and
  5000 Hz has the difference Treble - Mid rounded to 3 and is Bright; with 2 added to every
  level the normalised level at 1000 Hz is one unit in the last place larger, the
  difference is the double below 3 and the label is Neutral. In exact arithmetic both
  curves are Bright.
\<close>

theorem shift_changes_label_in_float64:
  "classify64 [100, 1000, 5000] [- 7, 0, 3] = Bright
   \<and> classify64 [100, 1000, 5000] [- 7 + 2, 0 + 2, 3 + 2] = Neutral
   \<and> spl_norm64 [- 7, 0, 3] ! 1 = 6004799503160661 / 2 ^ 52
   \<and> spl_norm64 [- 7 + 2, 0 + 2, 3 + 2] ! 1 = 6004799503160662 / 2 ^ 52
   \<and> classify [100, 1000, 5000] [- 7, 0, 3] = Bright
   \<and> classify [100, 1000, 5000] [- 7 + 2, 0 + 2, 3 + 2] = Bright"
  by code_simp

text \<open>
  C9, amended. For every non-empty curve and every real constant \<open>c\<close>: in exact real
  arithmetic, adding \<open>c\<close> to every level leaves unchanged the normalised curve, all band
  means, the three region means, the two differences Bass - Mid and Treble - Mid, and the
  label. In the float64 arithmetic of the script, which band means are defined never
  changes, and the band means and the label are unchanged whenever the normalised curve
  is computed to the same doubles; rounding can make it differ, and then the label can
  change.
\<close>

theorem shift_invariance:
  "spl \<noteq> [] \<Longrightarrow>
     spl_norm (map (\<lambda>x. x + c) spl) = spl_norm spl
     \<and> band_means freqs (spl_norm (map (\<lambda>x. x + c) spl)) = band_means freqs (spl_norm spl)
     \<and> bass_avg (band_means freqs (spl_norm (map (\<lambda>x. x + c) spl)))
         = bass_avg (band_means freqs (spl_norm spl))
     \<and> mid_avg (band_means freqs (spl_norm (map (\<lambda>x. x + c) spl)))
         = mid_avg (band_means freqs (spl_norm spl))
     \<and> treble_avg (band_means freqs (spl_norm (map (\<lambda>x. x + c) spl)))
         = treble_avg (band_means freqs (spl_norm spl))
     \<and> the (bass_avg (band_means freqs (spl_norm (map (\<lambda>x. x + c) spl))))
           - the (mid_avg (band_means freqs (spl_norm (map (\<lambda>x. x + c) spl))))
         = the (bass_avg (band_means freqs (spl_norm spl)))
           - the (mid_avg (band_means freqs (spl_norm spl)))
     \<and> the (treble_avg (band_means freqs (spl_norm (map (\<lambda>x. x + c) spl))))
           - the (mid_avg (band_means freqs (spl_norm (map (\<lambda>x. x + c) spl))))
         = the (treble_avg (band_means freqs (spl_norm spl)))
           - the (mid_avg (band_means freqs (spl_norm spl)))
     \<and> classify freqs (map (\<lambda>x. x + c) spl) = classify freqs spl
     \<and> (band_means64 freqs (spl_norm64 (map (\<lambda>x. float64 (x + c)) spl)) b = None)
         = (band_means64 freqs (spl_norm64 spl) b = None)
     \<and> (spl_norm64 (map (\<lambda>x. float64 (x + c)) spl) = spl_norm64 spl \<longrightarrow>
          band_means64 freqs (spl_norm64 (map (\<lambda>x. float64 (x + c)) spl))
            = band_means64 freqs (spl_norm64 spl)
          \<and> classify64 freqs (map (\<lambda>x. float64 (x + c)) spl) = classify64 freqs spl)"
  by (simp add: spl_norm_shift classify_def classify64_def band_means64_def band_mean64_def
      Let_def)

theorem shift_invariance_witness:
  "[0, 0, 9 :: real] \<noteq> []
   \<and> spl_norm [70, 70, 79] = spl_norm [0, 0, 9]
   \<and> classify [100, 1000, 5000] [70, 70, 79] = classify [100, 1000, 5000] [0, 0, 9]
   \<and> classify [100, 1000, 5000] [70, 70, 79] = Bright
   \<and> spl_norm64 [70, 70, 79] = spl_norm64 [0, 0, 9]
   \<and> classify64 [100, 1000, 5000] [70, 70, 79] = classify64 [100, 1000, 5000] [0, 0, 9]"
proof -
  have h: "[0, 0, 9 :: real] \<noteq> []" by simp
  have m: "map (\<lambda>x. x + 70) [0, 0, 9 :: real] = [70, 70, 79]" by simp
  have m64: "map (\<lambda>x. float64 (x + 70)) [0, 0, 9 :: real] = [70, 70, 79]" by code_simp
  have b: "classify [100, 1000, 5000] [0, 0, 9] = Bright" by code_simp
  have n: "spl_norm64 [70, 70, 79] = spl_norm64 [0, 0, 9]" by code_simp
  from shift_invariance [OF h, of 70 "[100, 1000, 5000]" brilliance] h b n show ?thesis
    unfolding m m64 by simp
qed

section \<open>Undefined bands and the short circuit\<close>

text \<open>
  C6, as stated: the label is short-circuited to Neutral only when all three of Bass,
  Mid and Treble are undefined. The script does otherwise: on the curve with one sample
  at 1000 Hz and one at 5000 Hz, Bass alone is undefined, Mid and Treble are defined
  (Treble exceeds Mid by 10 dB), the guard of line 80 fails and the label is Neutral.
\<close>

theorem any_undefined_region_short_circuits:
  "bass_avg (band_means [1000, 5000] (spl_norm [0, 10])) = None
   \<and> mid_avg (band_means [1000, 5000] (spl_norm [0, 10])) = Some (- 5)
   \<and> treble_avg (band_means [1000, 5000] (spl_norm [0, 10])) = Some 5
   \<and> \<not> regions_defined None (Some (- 5)) (Some 5)
   \<and> classify [1000, 5000] [0, 10] = Neutral"
  by code_simp

text \<open>
  C6, amended. The label is short-circuited to Neutral exactly when at least one of Bass,
  Mid, Treble is undefined: then it is Neutral by the fallback, and otherwise it is the
  label the decision table gives for the two differences. An undefined band alone does
  not short-circuit: when brilliance is undefined and presence is defined, Treble is
  presence alone, and if Bass and Mid are defined as well the label is the table's.
\<close>

theorem undefined_band_falls_back:
  "classify freqs spl =
     (if bass_avg (band_means freqs (spl_norm spl)) = None
         \<or> mid_avg (band_means freqs (spl_norm spl)) = None
         \<or> treble_avg (band_means freqs (spl_norm spl)) = None
      then Neutral
      else table_label threshold
             (the (bass_avg (band_means freqs (spl_norm spl)))
                - the (mid_avg (band_means freqs (spl_norm spl))))
             (the (treble_avg (band_means freqs (spl_norm spl)))
                - the (mid_avg (band_means freqs (spl_norm spl)))))
   \<and> label_at t bass mid treble =
       (if bass = None \<or> mid = None \<or> treble = None then Neutral
        else table_label t (the bass - the mid) (the treble - the mid))
   \<and> (band_means freqs (spl_norm spl) brilliance = None
        \<and> band_means freqs (spl_norm spl) presence = Some p
      \<longrightarrow> treble_avg (band_means freqs (spl_norm spl)) = Some p)
   \<and> (band_means freqs (spl_norm spl) brilliance = None
        \<and> band_means freqs (spl_norm spl) presence = Some p
        \<and> bass_avg (band_means freqs (spl_norm spl)) = Some b
        \<and> mid_avg (band_means freqs (spl_norm spl)) = Some m
      \<longrightarrow> classify freqs spl = table_label threshold (b - m) (p - m))"
  by (simp add: regions_defined_def treble_avg_def classify_def label_of_def label_at_def
      table_label_def Let_def)

theorem undefined_band_falls_back_witness:
  "band_means [100, 1000, 5000] (spl_norm [0, 0, 9]) brilliance = None
   \<and> treble_avg (band_means [100, 1000, 5000] (spl_norm [0, 0, 9])) = Some 6
   \<and> classify [100, 1000, 5000] [0, 0, 9] = Bright"
proof -
  have a: "band_means [100, 1000, 5000] (spl_norm [0, 0, 9]) brilliance = None" by code_simp
  have b: "band_means [100, 1000, 5000] (spl_norm [0, 0, 9]) presence = Some 6" by code_simp
  have c: "bass_avg (band_means [100, 1000, 5000] (spl_norm [0, 0, 9])) = Some (- 3)" by code_simp
  have d: "mid_avg (band_means [100, 1000, 5000] (spl_norm [0, 0, 9])) = Some (- 3)" by code_simp
  have e: "table_label threshold (- 3 - (- 3)) (6 - (- 3)) = Bright" by code_simp
  note t = undefined_band_falls_back
    [where freqs = "[100, 1000, 5000]" and spl = "[0, 0, 9]" and p = 6 and b = "- 3"
       and m = "- 3"]
  from t a b have 1: "treble_avg (band_means [100, 1000, 5000] (spl_norm [0, 0, 9])) = Some 6"
    by blast
  from t a b c d have "classify [100, 1000, 5000] [0, 0, 9] = table_label threshold (- 3 - (- 3)) (6 - (- 3))"
    by blast
  with e have 2: "classify [100, 1000, 5000] [0, 0, 9] = Bright" by simp
  from a 1 2 show ?thesis by blast
qed

section \<open>The empty curve\<close>

text \<open>
  C7, as stated: a file whose loaded curve is empty is rejected, or gives an explicit
  undefined result, and no zero-length plot or archived copy is written. The script does
  otherwise: for a file \<open>a.csv\<close> with two columns and no rows the iteration runs to its
  end, plots the empty curve and copies the file under the folder of Neutral.
\<close>

theorem empty_curve_emits_artifacts:
  "process_file header_only ''a.csv'' =
     Inr (Some \<lparr>art_label = Neutral, plot_x = [], plot_y = [],
                 img_path = ''dataset5/images/Neutral/a.png'',
                 csv_src = ''SuperInEar/a.csv'',
                 csv_dest = ''dataset5/csvs/Neutral/a.csv''\<rparr>)"
  by code_simp

text \<open>
  C7, amended. For an input file whose loaded curve is empty, every band mean and
  hence every region mean is undefined, the label is Neutral by the fallback, and the
  script writes the plot of the zero-length curve and the copy of the file under the
  folder of Neutral: the empty input is not rejected.
\<close>

theorem empty_curve_all_undefined:
  "endswith (lower filename) ''.csv'' \<Longrightarrow>
   read_csv (path_join input_dir filename) = Inr df \<Longrightarrow>
   2 \<le> length df \<Longrightarrow> as_numbers (df ! 0) = Inr [] \<Longrightarrow> as_numbers (df ! 1) = Inr [] \<Longrightarrow>
     band_means [] (spl_norm []) b = None
     \<and> bass_avg (band_means [] (spl_norm [])) = None
     \<and> mid_avg (band_means [] (spl_norm [])) = None
     \<and> treble_avg (band_means [] (spl_norm [])) = None
     \<and> process_file read_csv filename =
         Inr (Some \<lparr>art_label = Neutral, plot_x = [], plot_y = [],
                img_path = path_join3 output_img_dir ''Neutral'' (fst (splitext filename) @ ''.png''),
                csv_src = path_join input_dir filename,
                csv_dest = path_join3 output_csv_dir ''Neutral'' filename\<rparr>)"
proof -
  assume csvname: "endswith (lower filename) ''.csv''"
    and rd: "read_csv (path_join input_dir filename) = Inr df"
    and len: "2 \<le> length df"
    and f: "as_numbers (df ! 0) = Inr []" and s: "as_numbers (df ! 1) = Inr []"
  have bm: "band_means [] (spl_norm []) = (\<lambda>_. None)"
    by (rule ext) (simp add: band_means_def band_mean_empty)
  have ba: "bass_avg (\<lambda>_. None) = None" by (simp add: bass_avg_def)
  have ma: "mid_avg (\<lambda>_. None) = None" by (simp add: mid_avg_def)
  have ta: "treble_avg (\<lambda>_. None) = None" by (simp add: treble_avg_def)
  have cl: "classify [] [] = Neutral"
    by (simp add: classify_def bm ba ma ta label_of_def label_at_def regions_defined_def)
  have sn: "spl_norm [] = []" by (simp add: spl_norm_def)
  have pf: "process_file read_csv filename =
         Inr (Some \<lparr>art_label = Neutral, plot_x = [], plot_y = [],
                img_path = path_join3 output_img_dir ''Neutral'' (fst (splitext filename) @ ''.png''),
                csv_src = path_join input_dir filename,
                csv_dest = path_join3 output_csv_dir ''Neutral'' filename\<rparr>)"
  proof -
    from s have s': "as_numbers (df ! Suc 0) = Inr []" by simp
    show ?thesis
      using csvname len by (simp add: process_file_def rd f s' cl sn Let_def)
  qed
  show ?thesis
    using pf by (simp add: bm ba ma ta)
qed

theorem empty_curve_all_undefined_witness:
  "endswith (lower ''a.csv'') ''.csv''
   \<and> band_means [] (spl_norm []) brilliance = None
   \<and> process_file header_only ''a.csv'' =
         Inr (Some \<lparr>art_label = Neutral, plot_x = [], plot_y = [],
                img_path = path_join3 output_img_dir ''Neutral'' (fst (splitext ''a.csv'') @ ''.png''),
                csv_src = path_join input_dir ''a.csv'',
                csv_dest = path_join3 output_csv_dir ''Neutral'' ''a.csv''\<rparr>)"
proof -
  have e: "endswith (lower ''a.csv'') ''.csv''" by code_simp
  have r: "header_only (path_join input_dir ''a.csv'') = Inr [Objects [], Objects []]"
    by (simp add: header_only_def)
  have l: "2 \<le> length [Objects [], Objects []]" by simp
  have f: "as_numbers ([Objects [], Objects []] ! 0) = Inr []" by simp
  have s: "as_numbers ([Objects [], Objects []] ! 1) = Inr []" by simp
  from empty_curve_all_undefined
    [where filename = "''a.csv''" and read_csv = header_only
       and df = "[Objects [], Objects []]" and b = brilliance, OF e r l f s] e
  show ?thesis by simp
qed

section \<open>Skipped files\<close>

text \<open>
  C8, as stated: a file without the \<open>.csv\<close> extension or with fewer than two columns is
  skipped without a failure, and every other file goes through the whole pipeline. The
  script does otherwise on two kinds of \<open>.csv\<close> file: one whose second column holds a
  cell of text has two columns and is not skipped, yet \<open>np.mean\<close> raises \<open>TypeError\<close>
  at line 48; one without any byte has no column at all, yet \<open>pd.read_csv\<close> raises
  \<open>EmptyDataError\<close> at line 42. Nothing catches either: the loop ends there and the
  files after it are not processed.
\<close>

theorem unreadable_file_stops_run:
  "endswith (lower ''bad.csv'') ''.csv''
   \<and> text_cell (path_join input_dir ''bad.csv'')
       = Inr [Floats [100, 1000], Objects [''80.5'', ''n/a'']]
   \<and> process_file text_cell ''bad.csv'' = Inl TypeError
   \<and> process_file zero_byte ''bad.csv'' = Inl EmptyDataError
   \<and> process_all text_cell [''bad.csv'', ''good.csv''] = ([], Some TypeError)
   \<and> process_all zero_byte [''bad.csv'', ''good.csv''] = ([], Some EmptyDataError)"
  by code_simp

text \<open>
  C8, amended. A file whose name does not end in \<open>.csv\<close> (compared in lower case) is
  skipped without being read, and a file that \<open>pd.read_csv\<close> loads with fewer than two
  columns is skipped: the iteration ends with \<open>continue\<close>, no image and no copy is
  written, nothing is raised, and the loop goes on with the next file. A \<open>.csv\<close> file
  on which \<open>pd.read_csv\<close> raises, or whose first two columns are not both numeric or
  empty, is not skipped: the exception leaves the iteration and ends the loop. Every
  other file goes through the whole pipeline and gives its image and its copy under the
  folder of its label.
\<close>

theorem skippable_inputs:
  "(\<not> endswith (lower filename) ''.csv'' \<longrightarrow> process_file read_csv filename = Inr None)
   \<and> (endswith (lower filename) ''.csv''
        \<and> read_csv (path_join input_dir filename) = Inr df \<and> length df < 2
      \<longrightarrow> process_file read_csv filename = Inr None)
   \<and> (endswith (lower filename) ''.csv'' \<and> read_csv (path_join input_dir filename) = Inl e
      \<longrightarrow> process_file read_csv filename = Inl e)
   \<and> (endswith (lower filename) ''.csv''
        \<and> read_csv (path_join input_dir filename) = Inr df \<and> 2 \<le> length df
        \<and> (as_numbers (df ! 0) = Inl e \<or> as_numbers (df ! 1) = Inl e)
      \<longrightarrow> process_file read_csv filename = Inl TypeError)
   \<and> (endswith (lower filename) ''.csv''
        \<and> read_csv (path_join input_dir filename) = Inr df \<and> 2 \<le> length df
        \<and> as_numbers (df ! 0) = Inr freqs \<and> as_numbers (df ! 1) = Inr spl
      \<longrightarrow> process_file read_csv filename =
            Inr (Some \<lparr>art_label = classify freqs spl,
                   plot_x = freqs,
                   plot_y = spl_norm spl,
                   img_path = path_join3 output_img_dir (label_name (classify freqs spl))
                     (fst (splitext filename) @ ''.png''),
                   csv_src = path_join input_dir filename,
                   csv_dest = path_join3 output_csv_dir (label_name (classify freqs spl))
                     filename\<rparr>))
   \<and> (process_file read_csv filename = Inr None
      \<longrightarrow> process_all read_csv (filename # listing) = process_all read_csv listing)
   \<and> (process_file read_csv filename = Inl e
      \<longrightarrow> process_all read_csv (filename # listing) = ([], Some e))"
proof -
  have c1: "\<not> endswith (lower filename) ''.csv'' \<longrightarrow> process_file read_csv filename = Inr None"
    by (simp add: process_file_def)
  have c2: "endswith (lower filename) ''.csv''
        \<and> read_csv (path_join input_dir filename) = Inr df \<and> length df < 2
      \<longrightarrow> process_file read_csv filename = Inr None"
    by (simp add: process_file_def Let_def)
  have c3: "endswith (lower filename) ''.csv'' \<and> read_csv (path_join input_dir filename) = Inl e
      \<longrightarrow> process_file read_csv filename = Inl e"
    by (simp add: process_file_def Let_def)
  have c4: "endswith (lower filename) ''.csv''
        \<and> read_csv (path_join input_dir filename) = Inr df \<and> 2 \<le> length df
        \<and> (as_numbers (df ! 0) = Inl e \<or> as_numbers (df ! 1) = Inl e)
      \<longrightarrow> process_file read_csv filename = Inl TypeError"
    by (auto simp: process_file_def Let_def split: sum.splits dest: as_numbers_error)
  have c5: "endswith (lower filename) ''.csv''
        \<and> read_csv (path_join input_dir filename) = Inr df \<and> 2 \<le> length df
        \<and> as_numbers (df ! 0) = Inr freqs \<and> as_numbers (df ! 1) = Inr spl
      \<longrightarrow> process_file read_csv filename =
            Inr (Some \<lparr>art_label = classify freqs spl,
                   plot_x = freqs,
                   plot_y = spl_norm spl,
                   img_path = path_join3 output_img_dir (label_name (classify freqs spl))
                     (fst (splitext filename) @ ''.png''),
                   csv_src = path_join input_dir filename,
                   csv_dest = path_join3 output_csv_dir (label_name (classify freqs spl))
                     filename\<rparr>)"
    by (auto simp: process_file_def Let_def)
  have c6: "process_file read_csv filename = Inr None
      \<longrightarrow> process_all read_csv (filename # listing) = process_all read_csv listing"
    by simp
  have c7: "process_file read_csv filename = Inl e
      \<longrightarrow> process_all read_csv (filename # listing) = ([], Some e)"
    by simp
  from c1 c2 c3 c4 c5 c6 c7 show ?thesis by blast
qed

theorem skippable_inputs_witness:
  "process_file zero_byte ''notes.txt'' = Inr None
   \<and> process_file one_column ''one.csv'' = Inr None
   \<and> process_file zero_byte ''empty.csv'' = Inl EmptyDataError
   \<and> process_file text_cell ''text.csv'' = Inl TypeError
   \<and> map_sum id (map_option art_label) (process_file bright_curve ''Two.CSV'') = Inr (Some Bright)
   \<and> process_all one_column [''one.csv''] = ([], None)
   \<and> process_all zero_byte [''empty.csv''] = ([], Some EmptyDataError)"
proof -
  have a: "\<not> endswith (lower ''notes.txt'') ''.csv''" by code_simp
  have b: "endswith (lower ''one.csv'') ''.csv''
      \<and> one_column (path_join input_dir ''one.csv'') = Inr [Floats [1, 2]]
      \<and> length [Floats [1, 2]] < 2" by code_simp
  have c: "endswith (lower ''empty.csv'') ''.csv''
      \<and> zero_byte (path_join input_dir ''empty.csv'') = Inl EmptyDataError" by code_simp
  have d: "endswith (lower ''text.csv'') ''.csv''
      \<and> text_cell (path_join input_dir ''text.csv'')
          = Inr [Floats [100, 1000], Objects [''80.5'', ''n/a'']]
      \<and> 2 \<le> length [Floats [100, 1000], Objects [''80.5'', ''n/a'']]
      \<and> as_numbers ([Floats [100, 1000], Objects [''80.5'', ''n/a'']] ! 1) = Inl TypeError"
    by code_simp
  have e: "endswith (lower ''Two.CSV'') ''.csv''
      \<and> bright_curve (path_join input_dir ''Two.CSV'')
          = Inr [Floats [100, 1000, 5000], Floats [0, 0, 9]]
      \<and> 2 \<le> length [Floats [100, 1000, 5000], Floats [0, 0, 9]]
      \<and> as_numbers ([Floats [100, 1000, 5000], Floats [0, 0, 9]] ! 0) = Inr [100, 1000, 5000]
      \<and> as_numbers ([Floats [100, 1000, 5000], Floats [0, 0, 9]] ! 1) = Inr [0, 0, 9]"
    by code_simp
  have cl: "classify [100, 1000, 5000] [0, 0, 9] = Bright" by code_simp
  from a skippable_inputs [where filename = "''notes.txt''" and read_csv = zero_byte]
  have 1: "process_file zero_byte ''notes.txt'' = Inr None" by blast
  from b skippable_inputs [where filename = "''one.csv''" and read_csv = one_column
      and df = "[Floats [1, 2]]"]
  have 2: "process_file one_column ''one.csv'' = Inr None" by blast
  from c skippable_inputs [where filename = "''empty.csv''" and read_csv = zero_byte
      and e = EmptyDataError]
  have 3: "process_file zero_byte ''empty.csv'' = Inl EmptyDataError" by blast
  from d skippable_inputs [where filename = "''text.csv''" and read_csv = text_cell
      and df = "[Floats [100, 1000], Objects [''80.5'', ''n/a'']]" and e = TypeError]
  have 4: "process_file text_cell ''text.csv'' = Inl TypeError" by blast
  from e skippable_inputs [where filename = "''Two.CSV''" and read_csv = bright_curve
      and df = "[Floats [100, 1000, 5000], Floats [0, 0, 9]]"
      and freqs = "[100, 1000, 5000]" and spl = "[0, 0, 9]"]
  have 5: "map_sum id (map_option art_label) (process_file bright_curve ''Two.CSV'')
      = Inr (Some Bright)"
    by (simp add: cl)
  from 2 skippable_inputs [where filename = "''one.csv''" and read_csv = one_column
      and listing = "[]"]
  have 6: "process_all one_column [''one.csv''] = ([], None)" by simp
  from 3 skippable_inputs [where filename = "''empty.csv''" and read_csv = zero_byte
      and listing = "[]" and e = EmptyDataError]
  have 7: "process_all zero_byte [''empty.csv''] = ([], Some EmptyDataError)" by blast
  from 1 2 3 4 5 6 7 show ?thesis by blast
qed

section \<open>Samples outside every band\<close>

text \<open>
  C10. A sample whose frequency is below 20 Hz or at or above 12000 Hz is selected by
  the mask of none of the seven bands, so it enters no band mean and no region mean:
  the band means, and with them the label, are those of the curve with these samples
  removed, once the mean of all levels (theirs included) has been subtracted. Such a
  sample acts on the result only through that mean.
\<close>

theorem out_of_range_excluded:
  "length freqs = length spl \<Longrightarrow>
     (\<forall>i < length freqs. freqs ! i < 20 \<or> 12000 \<le> freqs ! i \<longrightarrow>
         \<not> band_mask freqs (bands b) ! i)
     \<and> band_means freqs (spl_norm spl) =
         band_means (masked freqs (map (\<lambda>f. 20 \<le> f \<and> f < 12000) freqs))
           (map (\<lambda>x. x - np_mean spl) (masked spl (map (\<lambda>f. 20 \<le> f \<and> f < 12000) freqs)))
     \<and> classify freqs spl =
         label_of
           (bass_avg (band_means (masked freqs (map (\<lambda>f. 20 \<le> f \<and> f < 12000) freqs))
              (map (\<lambda>x. x - np_mean spl) (masked spl (map (\<lambda>f. 20 \<le> f \<and> f < 12000) freqs)))))
           (mid_avg (band_means (masked freqs (map (\<lambda>f. 20 \<le> f \<and> f < 12000) freqs))
              (map (\<lambda>x. x - np_mean spl) (masked spl (map (\<lambda>f. 20 \<le> f \<and> f < 12000) freqs)))))
           (treble_avg (band_means (masked freqs (map (\<lambda>f. 20 \<le> f \<and> f < 12000) freqs))
              (map (\<lambda>x. x - np_mean spl) (masked spl (map (\<lambda>f. 20 \<le> f \<and> f < 12000) freqs)))))"
proof -
  assume len: "length freqs = length spl"
  let ?keep = "map (\<lambda>f. 20 \<le> (f::real) \<and> f < 12000) freqs"
  have out: "\<forall>i < length freqs. freqs ! i < 20 \<or> 12000 \<le> freqs ! i \<longrightarrow>
         \<not> band_mask freqs (bands b) ! i"
    by (cases b) (auto simp: band_mask_def)
  have bm: "band_means freqs (spl_norm spl) =
         band_means (masked freqs ?keep) (map (\<lambda>x. x - np_mean spl) (masked spl ?keep))"
  proof (rule ext)
    fix k
    have "length (spl_norm spl) = length freqs"
      using len by (simp add: length_spl_norm)
    then have "band_mean (masked freqs ?keep) (masked (spl_norm spl) ?keep) (bands k)
        = band_mean freqs (spl_norm spl) (bands k)"
      by (rule band_mean_restrict) (rule band_lower, rule band_upper)
    moreover have "masked (spl_norm spl) ?keep = map (\<lambda>x. x - np_mean spl) (masked spl ?keep)"
      by (simp add: spl_norm_def masked_map)
    ultimately show "band_means freqs (spl_norm spl) k =
         band_means (masked freqs ?keep) (map (\<lambda>x. x - np_mean spl) (masked spl ?keep)) k"
      by (simp add: band_means_def)
  qed
  have cl: "classify freqs spl =
      label_of (bass_avg (band_means freqs (spl_norm spl)))
        (mid_avg (band_means freqs (spl_norm spl)))
        (treble_avg (band_means freqs (spl_norm spl)))"
    by (simp add: classify_def Let_def)
  from out bm cl show ?thesis by simp
qed

theorem out_of_range_excluded_witness:
  "length [10, 100, 1000, 5000, 15000 :: real] = length [50, 0, 0, 9, - 14 :: real]
   \<and> \<not> band_mask [10, 100, 1000, 5000, 15000] (bands brilliance) ! 4
   \<and> band_means [10, 100, 1000, 5000, 15000] (spl_norm [50, 0, 0, 9, - 14]) =
       band_means [100, 1000, 5000] (map (\<lambda>x. x - 9) [0, 0, 9])"
proof -
  have h: "length [10, 100, 1000, 5000, 15000 :: real] = length [50, 0, 0, 9, - 14 :: real]"
    by simp
  have o: "(4 :: nat) < length [10, 100, 1000, 5000, 15000 :: real]
      \<and> (12000 :: real) \<le> [10, 100, 1000, 5000, 15000] ! 4" by simp
  have k1: "masked [10, 100, 1000, 5000, 15000 :: real]
      (map (\<lambda>f. 20 \<le> f \<and> f < 12000) [10, 100, 1000, 5000, 15000 :: real]) = [100, 1000, 5000]"
    by (simp add: masked_def)
  have k2: "masked [50, 0, 0, 9, - 14 :: real]
      (map (\<lambda>f. 20 \<le> f \<and> f < 12000) [10, 100, 1000, 5000, 15000 :: real]) = [0, 0, 9]"
    by (simp add: masked_def)
  have m: "np_mean [50, 0, 0, 9, - 14] = 9" by (simp add: np_mean_def)
  note t = out_of_range_excluded [OF h, of brilliance]
  from t o have a: "\<not> band_mask [10, 100, 1000, 5000, 15000] (bands brilliance) ! 4"
    by blast
  from t have b: "band_means [10, 100, 1000, 5000, 15000] (spl_norm [50, 0, 0, 9, - 14]) =
       band_means [100, 1000, 5000] (map (\<lambda>x. x - 9) [0, 0, 9])"
    unfolding k1 k2 m by blast
  from h a b show ?thesis by blast
qed

end
